theory Spec2Isabelle
  imports Main
begin

section \<open>Python values used by the orchestration core\<close>

text \<open>
  A Python \<open>dict\<close> keeps its keys unique and in insertion order. It is modelled as an
  association list: \<open>d[k] = v\<close> overwrites the value of an existing key in place and
  otherwise appends the pair at the end; \<open>d[k]\<close> raises \<open>KeyError\<close> on a missing key.
  A dictionary built by the program has pairwise distinct keys (\<open>dict_wf\<close>).
\<close>

type_synonym ('k, 'v) dict = "('k \<times> 'v) list"

datatype exn = KeyError string | Raised string

definition dict_wf :: "('k, 'v) dict \<Rightarrow> bool" where
  "dict_wf d = distinct (map fst d)"

definition dict_keys :: "('k, 'v) dict \<Rightarrow> 'k list" where
  "dict_keys d = map fst d"

definition dict_get :: "('k, 'v) dict \<Rightarrow> 'k \<Rightarrow> 'v option" where
  "dict_get d k = map_of d k"

definition dict_contains :: "('k, 'v) dict \<Rightarrow> 'k \<Rightarrow> bool" where
  "dict_contains d k = (dict_get d k \<noteq> None)"

definition dict_getitem :: "(string, 'v) dict \<Rightarrow> string \<Rightarrow> exn + 'v" where
  "dict_getitem d k = (case dict_get d k of None \<Rightarrow> Inl (KeyError k) | Some v \<Rightarrow> Inr v)"

fun dict_set :: "'k \<Rightarrow> 'v \<Rightarrow> ('k, 'v) dict \<Rightarrow> ('k, 'v) dict" where
  "dict_set k v [] = [(k, v)]"
| "dict_set k v (p # d) = (if fst p = k then (fst p, v) # d else p # dict_set k v d)"

text \<open>\<open>item in d.items()\<close>: the key is looked up and the value found is compared.\<close>

definition item_in :: "'k \<times> 'v \<Rightarrow> ('k, 'v) dict \<Rightarrow> bool" where
  "item_in item d = (dict_get d (fst item) = Some (snd item))"

text \<open>
  The slice \<open>xs[i:]\<close>: a negative start counts from the end and is clamped at the
  front of the list; a start beyond the end gives the empty list.
\<close>

definition py_slice_from :: "int \<Rightarrow> 'a list \<Rightarrow> 'a list" where
  "py_slice_from i xs =
     (if i < 0 then drop (nat (max (int (length xs) + i) 0)) xs
      else drop (nat i) xs)"

text \<open>\<open>sep.join(xs)\<close>\<close>

fun join :: "string \<Rightarrow> string list \<Rightarrow> string" where
  "join sep [] = []"
| "join sep [x] = x"
| "join sep (x # y # ys) = x @ sep @ join sep (y # ys)"

section \<open>Claims and vaults\<close>

text \<open>
  Tag values have Python type \<open>Any\<close>; the core only compares them with \<open>==\<close>. They
  are kept abstract as a type \<open>'v\<close> whose equality stands for that comparison.
\<close>

record 'v claim =
  content :: string
  beacons :: "(string, 'v) dict"
  claim_id :: string

record 'v memory_vault =
  vault_id :: string
  claims :: "'v claim list"

definition new_vault :: "string \<Rightarrow> 'v memory_vault" where
  "new_vault vid = \<lparr>vault_id = vid, claims = []\<rparr>"

definition add_claim :: "'v memory_vault \<Rightarrow> 'v claim \<Rightarrow> 'v memory_vault" where
  "add_claim self c = self\<lparr>claims := claims self @ [c]\<rparr>"

text \<open>\<open>all(item in claim.beacons.items() for item in beacon_query.items())\<close>\<close>

definition beacon_match :: "(string, 'v) dict \<Rightarrow> 'v claim \<Rightarrow> bool" where
  "beacon_match beacon_query c = list_all (\<lambda>item. item_in item (beacons c)) beacon_query"

text \<open>
  \<open>get_slice\<close> is a method of a mutable object: it returns its result together with the
  vault as the call leaves it.
\<close>

definition get_slice ::
  "'v memory_vault \<Rightarrow> (string, 'v) dict \<Rightarrow> int \<Rightarrow> 'v claim list \<times> 'v memory_vault" where
  "get_slice self beacon_query max_claims =
     (let matches = filter (beacon_match beacon_query) (claims self)
      in (py_slice_from (- max_claims) matches, self))"

definition default_max_claims :: int where
  "default_max_claims = 5"

section \<open>Agents\<close>

record agent =
  agent_id :: string
  role :: string
  vault_ids :: "string list"

text \<open>
  The generation collaborator (\<open>llm_call\<close>, "a swappable function to call the LLM") talks
  to an outside service. It is a parameter of the model: any function from the state of
  the outside world and a prompt to a text and the next state of the world, so that two
  calls with the same prompt may answer differently.
\<close>

type_synonym 'w llm = "'w \<Rightarrow> string \<Rightarrow> string \<times> 'w"

text \<open>The inner loop of \<open>Agent.run\<close>: \<open>context += f"- {claim.content}\n"\<close>.\<close>

fun render_claims :: "string \<Rightarrow> 'v claim list \<Rightarrow> string" where
  "render_claims context [] = context"
| "render_claims context (c # cs) =
     render_claims (context @ ''- '' @ content c @ ''\<newline>'') cs"

text \<open>The outer loop over \<open>slices.items()\<close>; an empty list of claims is falsy.\<close>

fun render_slices :: "string \<Rightarrow> (string, 'v claim list) dict \<Rightarrow> string" where
  "render_slices context [] = context"
| "render_slices context (item # rest) =
     render_slices
       (if snd item \<noteq> []
        then render_claims (context @ ''\<newline>--- Context from '' @ fst item @ '' ---\<newline>'')
               (snd item)
        else context)
       rest"

definition no_information :: string where
  "no_information = ''\<newline>--- No relevant information found in memory vaults. ---\<newline>''"

definition agent_context :: "(string, 'v claim list) dict \<Rightarrow> string" where
  "agent_context slices =
     (let context = render_slices [] slices
      in if context = [] then no_information else context)"

definition agent_prompt :: "agent \<Rightarrow> string \<Rightarrow> (string, 'v claim list) dict \<Rightarrow> string" where
  \<open>agent_prompt self q slices =
     ''\<newline>Your Role: '' @ role self @
     ''\<newline>User's Query: "'' @ q @ ''"\<newline>Relevant Information:\<newline>'' @
     agent_context slices @
     ''\<newline>Based on your role and the provided information, generate a concise, partial response.\<newline>''\<close>

definition run ::
  "'w llm \<Rightarrow> agent \<Rightarrow> string \<Rightarrow> (string, 'v claim list) dict \<Rightarrow> 'w \<Rightarrow> string \<times> 'w" where
  "run llm_call self q slices w = llm_call w (agent_prompt self q slices)"

section \<open>The orchestrator\<close>

text \<open>
  The three strategies are callables supplied by the caller. They are pure, and each may
  raise: a raise is the value \<open>Inl e\<close>, which \<open>handle_request\<close> lets through.
\<close>

type_synonym gatekeeper_strategy = "string \<Rightarrow> (string, agent) dict \<Rightarrow> exn + agent list"
type_synonym 'v beacon_strategy = "string \<Rightarrow> exn + (string, 'v) dict"
type_synonym 'v slice_augmentation_strategy =
  "agent \<Rightarrow> (string, 'v) dict \<Rightarrow> exn + (string, 'v) dict"

record 'v trace =
  trace_query :: string
  trace_woken_agents :: "agent list"
  trace_base_beacons :: "(string, 'v) dict"
  trace_slices_per_agent :: "(string, (string, 'v claim list) dict) dict"
  trace_partial_results :: "(string, string) dict"

text \<open>\<open>last_trace\<close> is \<open>None\<close> for the empty dictionary the constructor stores.\<close>

record 'v fabric =
  agents :: "(string, agent) dict"
  vaults :: "(string, 'v memory_vault) dict"
  gatekeeper_strategy :: gatekeeper_strategy
  beacon_strategy :: "'v beacon_strategy"
  slice_augmentation_strategy :: "'v slice_augmentation_strategy"
  last_trace :: "'v trace option"

definition fabric_init ::
  "gatekeeper_strategy \<Rightarrow> 'v beacon_strategy \<Rightarrow> 'v slice_augmentation_strategy \<Rightarrow> 'v fabric" where
  "fabric_init g b s =
     \<lparr>agents = [], vaults = [], gatekeeper_strategy = g, beacon_strategy = b,
      slice_augmentation_strategy = s,
      last_trace = None\<rparr>"

definition register_agent :: "'v fabric \<Rightarrow> agent \<Rightarrow> 'v fabric" where
  "register_agent self a = self\<lparr>agents := dict_set (agent_id a) a (agents self)\<rparr>"

definition register_vault :: "'v fabric \<Rightarrow> 'v memory_vault \<Rightarrow> 'v fabric" where
  "register_vault self v = self\<lparr>vaults := dict_set (vault_id v) v (vaults self)\<rparr>"

definition no_agent_message :: string where
  "no_agent_message = ''No relevant agent could be found to handle this request.''"

definition contribution :: "agent \<Rightarrow> string \<Rightarrow> string" where
  "contribution a partial_result =
     ''--- Contribution from '' @ agent_id a @ '' ---\<newline>'' @ partial_result"

text \<open>
  The loop over \<open>agent.vault_ids\<close> that fills \<open>slices_for_agent\<close>; \<open>get_slice\<close> is called
  with its default limit.
\<close>

fun slices_loop ::
  "(string, 'v memory_vault) dict \<Rightarrow> (string, 'v) dict \<Rightarrow> (string, 'v claim list) dict \<Rightarrow>
   string list \<Rightarrow> exn + (string, 'v claim list) dict" where
  "slices_loop vs agent_beacons slices_for_agent [] = Inr slices_for_agent"
| "slices_loop vs agent_beacons slices_for_agent (i # rest) =
     (if dict_contains vs i then
        (case dict_getitem vs i of
           Inl e \<Rightarrow> Inl e
         | Inr vault \<Rightarrow>
             slices_loop vs agent_beacons
               (dict_set i (fst (get_slice vault agent_beacons default_max_claims))
                  slices_for_agent)
               rest)
      else slices_loop vs agent_beacons slices_for_agent rest)"

text \<open>
  The loop over the woken agents. It carries the trace, the list of labelled
  contributions and the outside world; a raise leaves the trace as filled so far.
\<close>

fun agent_loop ::
  "'w llm \<Rightarrow> 'v fabric \<Rightarrow> string \<Rightarrow> (string, 'v) dict \<Rightarrow> agent list \<Rightarrow>
   'v trace \<Rightarrow> string list \<Rightarrow> 'w \<Rightarrow> (exn + string list) \<times> 'v trace \<times> 'w" where
  "agent_loop llm_call self q base_beacons [] tr partial_results_list w =
     (Inr partial_results_list, tr, w)"
| "agent_loop llm_call self q base_beacons (a # rest) tr partial_results_list w =
     (case slice_augmentation_strategy self a base_beacons of
        Inl e \<Rightarrow> (Inl e, tr, w)
      | Inr agent_beacons \<Rightarrow>
          (case slices_loop (vaults self) agent_beacons [] (vault_ids a) of
             Inl e \<Rightarrow> (Inl e, tr, w)
           | Inr slices_for_agent \<Rightarrow>
               (let tr1 = tr\<lparr>trace_slices_per_agent :=
                             dict_set (agent_id a) slices_for_agent (trace_slices_per_agent tr)\<rparr>;
                    res = run llm_call a q slices_for_agent w;
                    tr2 = tr1\<lparr>trace_partial_results :=
                             dict_set (agent_id a) (fst res) (trace_partial_results tr1)\<rparr>
                in agent_loop llm_call self q base_beacons rest tr2
                     (partial_results_list @ [contribution a (fst res)]) (snd res))))"

definition fresh_trace :: "string \<Rightarrow> 'v trace" where
  "fresh_trace q =
     \<lparr>trace_query = q, trace_woken_agents = [], trace_base_beacons = [],
      trace_slices_per_agent = [], trace_partial_results = []\<rparr>"

text \<open>
  \<open>handle_request\<close> returns the response and the trace, or the exception a strategy
  raised, together with the fabric (whose \<open>last_trace\<close> it assigns) and the outside world.
\<close>

definition handle_request ::
  "'w llm \<Rightarrow> 'v fabric \<Rightarrow> string \<Rightarrow> 'w \<Rightarrow> (exn + string \<times> 'v trace) \<times> 'v fabric \<times> 'w" where
  "handle_request llm_call self q w =
     (let tr0 = fresh_trace q in
      case gatekeeper_strategy self q (agents self) of
        Inl e \<Rightarrow> (Inl e, self\<lparr>last_trace := Some tr0\<rparr>, w)
      | Inr woken_agents \<Rightarrow>
          (let tr1 = tr0\<lparr>trace_woken_agents := woken_agents\<rparr> in
           if woken_agents = [] then
             (Inr (no_agent_message, tr1), self\<lparr>last_trace := Some tr1\<rparr>, w)
           else
             (case beacon_strategy self q of
                Inl e \<Rightarrow> (Inl e, self\<lparr>last_trace := Some tr1\<rparr>, w)
              | Inr base_beacons \<Rightarrow>
                  (let tr2 = tr1\<lparr>trace_base_beacons := base_beacons\<rparr> in
                   case agent_loop llm_call self q base_beacons woken_agents tr2 [] w of
                     (Inl e, tr3, w') \<Rightarrow> (Inl e, self\<lparr>last_trace := Some tr3\<rparr>, w')
                   | (Inr partial_results_list, tr3, w') \<Rightarrow>
                       (Inr (join ''\<newline>\<newline>'' partial_results_list, tr3),
                        self\<lparr>last_trace := Some tr3\<rparr>, w')))))"

text \<open>What a call of \<open>handle_request\<close> returned, when it returned normally.\<close>

definition returned_response ::
  "(exn + string \<times> 'v trace) \<times> 'v fabric \<times> 'w \<Rightarrow> string option" where
  "returned_response r = (case fst r of Inl e \<Rightarrow> None | Inr p \<Rightarrow> Some (fst p))"

definition returned_trace ::
  "(exn + string \<times> 'v trace) \<times> 'v fabric \<times> 'w \<Rightarrow> 'v trace option" where
  "returned_trace r = (case fst r of Inl e \<Rightarrow> None | Inr p \<Rightarrow> Some (snd p))"

section \<open>The specification's words\<close>

text \<open>
  A claim's tags are a superset of a query: every key of the query is present in the
  tags with an equal value.
\<close>

definition tags_superset :: "(string, 'v) dict \<Rightarrow> (string, 'v) dict \<Rightarrow> bool" where
  "tags_superset tag_query tags =
     (\<forall>k \<in> set (dict_keys tag_query). dict_get tags k = dict_get tag_query k)"

text \<open>The most recently appended \<open>n\<close> elements: the tail of the sequence.\<close>

definition most_recent :: "nat \<Rightarrow> 'a list \<Rightarrow> 'a list" where
  "most_recent n xs = drop (length xs - n) xs"

text \<open>
  The rendering of one slice: a header naming the vault, then one line for the content
  of each claim, in the order of the slice.
\<close>

definition slice_rendering :: "string \<times> 'v claim list \<Rightarrow> string" where
  "slice_rendering item =
     ''\<newline>--- Context from '' @ fst item @ '' ---\<newline>'' @
     concat (map (\<lambda>c. ''- '' @ content c @ ''\<newline>'') (snd item))"

text \<open>
  The partial results: the texts the generation collaborator returns for the selected
  agents, one call for each agent in selection order, each call made in the world the
  call before it left.
\<close>

fun partial_texts ::
  "'w llm \<Rightarrow> 'v fabric \<Rightarrow> string \<Rightarrow> (string, 'v) dict \<Rightarrow> agent list \<Rightarrow> 'w \<Rightarrow> string list" where
  "partial_texts llm_call self q base_beacons [] w = []"
| "partial_texts llm_call self q base_beacons (a # rest) w =
     (case slice_augmentation_strategy self a base_beacons of
        Inl e \<Rightarrow> []
      | Inr agent_beacons \<Rightarrow>
          (case slices_loop (vaults self) agent_beacons [] (vault_ids a) of
             Inl e \<Rightarrow> []
           | Inr slices_for_agent \<Rightarrow>
               (let res = run llm_call a q slices_for_agent w
                in fst res # partial_texts llm_call self q base_beacons rest (snd res))))"

text \<open>The last agent of a selection that has a given id.\<close>

fun last_with_id :: "string \<Rightarrow> agent list \<Rightarrow> agent option" where
  "last_with_id i [] = None"
| "last_with_id i (a # rest) =
     (case last_with_id i rest of
        Some b \<Rightarrow> Some b
      | None \<Rightarrow> if agent_id a = i then Some a else None)"

section \<open>Example data\<close>

text \<open>
  The vault of the specification's scenario: two billing claims, the second one urgent,
  and a shipping claim, appended in this order. Tag values are strings here.
\<close>

definition billing1 :: "string claim" where
  "billing1 = \<lparr>content = ''invoice sent'', beacons = [(''topic'', ''billing'')],
               claim_id = ''c1''\<rparr>"

definition billing2 :: "string claim" where
  "billing2 = \<lparr>content = ''invoice overdue'',
               beacons = [(''topic'', ''billing''), (''urgent'', ''True'')], claim_id = ''c2''\<rparr>"

definition shipping1 :: "string claim" where
  "shipping1 = \<lparr>content = ''parcel left'', beacons = [(''topic'', ''shipping'')],
                claim_id = ''c3''\<rparr>"

definition vault_V :: "string memory_vault" where
  "vault_V = \<lparr>vault_id = ''V'', claims = [billing1, billing2, shipping1]\<rparr>"

definition vault_W :: "string memory_vault" where
  "vault_W = new_vault ''W''"

text \<open>
  Two agents and a fabric that knows them. Agent \<open>A\<close> names the vault \<open>V2\<close>, which is
  never registered. The selection wakes every registered agent, unless the query is
  empty; the generation collaborator fails on its first call and answers afterwards.
\<close>

definition agent_A :: agent where
  "agent_A = \<lparr>agent_id = ''A'', role = ''billing expert'', vault_ids = [''V'', ''V2'']\<rparr>"

definition agent_B :: agent where
  "agent_B = \<lparr>agent_id = ''B'', role = ''shipping expert'', vault_ids = [''V'', ''W'']\<rparr>"

definition wake_all :: gatekeeper_strategy where
  "wake_all q ags = (if q = [] then Inr [] else Inr (map snd ags))"

definition topic_of_query :: "string beacon_strategy" where
  "topic_of_query q = Inr [(''topic'', q)]"

definition pass_through :: "string slice_augmentation_strategy" where
  "pass_through a base_beacons = Inr base_beacons"

definition failing_once :: "nat llm" where
  "failing_once w prompt = (if w = 0 then ''[Error: LLM call failed.]'' else ''ok'', Suc w)"

definition fabric_AB :: "string fabric" where
  "fabric_AB =
     register_vault
       (register_vault
          (register_agent
             (register_agent (fabric_init wake_all topic_of_query pass_through) agent_A)
             agent_B)
          vault_V)
       vault_W"

text \<open>A selection strategy that returns two agents with the same id.\<close>

definition agent_A2 :: agent where
  "agent_A2 = \<lparr>agent_id = ''A'', role = ''billing intern'', vault_ids = []\<rparr>"

definition wake_two :: gatekeeper_strategy where
  "wake_two q ags = Inr [agent_A, agent_A2]"

definition fabric_dup :: "string fabric" where
  "fabric_dup = register_vault (fabric_init wake_two topic_of_query pass_through) vault_V"

text \<open>Strategies that raise, and a vault that replaces \<open>vault_V\<close> under its id.\<close>

definition raising_beacon :: "string beacon_strategy" where
  "raising_beacon q = Inl (Raised ''beacon strategy failed'')"

definition raising_augmentation :: "string slice_augmentation_strategy" where
  "raising_augmentation a base_beacons = Inl (Raised ''augmentation strategy failed'')"

definition vault_V2 :: "string memory_vault" where
  "vault_V2 = \<lparr>vault_id = ''V'', claims = [shipping1]\<rparr>"

section \<open>Properties of dictionaries\<close>

lemma dict_get_set:
  "dict_get (dict_set k v d) k' = (if k' = k then Some v else dict_get d k')"
  by (induction d) (auto simp: dict_get_def)

lemma dict_keys_set:
  "set (dict_keys (dict_set k v d)) = insert k (set (dict_keys d))"
  by (induction d) (auto simp: dict_keys_def)

lemma dict_keys_set_present:
  "dict_contains d k \<Longrightarrow> dict_keys (dict_set k v d) = dict_keys d"
  by (induction d) (auto simp: dict_keys_def dict_contains_def dict_get_def)

lemma dict_keys_set_absent:
  "\<not> dict_contains d k \<Longrightarrow> dict_keys (dict_set k v d) = dict_keys d @ [k]"
  by (induction d) (auto simp: dict_keys_def dict_contains_def dict_get_def)

lemma dict_contains_keys: "dict_contains d k = (k \<in> set (dict_keys d))"
  by (simp add: dict_contains_def dict_get_def dict_keys_def map_of_eq_None_iff)

lemma dict_wf_set: "dict_wf d \<Longrightarrow> dict_wf (dict_set k v d)"
  using dict_keys_set_present [of d k v] dict_keys_set_absent [of d k v]
  by (cases "dict_contains d k") (auto simp: dict_wf_def dict_keys_def dict_contains_keys)

section \<open>Properties of the vault\<close>

lemma py_slice_from_neg:
  "1 \<le> n \<Longrightarrow> py_slice_from (- n) xs = drop (length xs - nat n) xs"
  by (simp add: py_slice_from_def max_def nat_diff_distrib' nat_le_iff)

lemma beacon_match_superset:
  "dict_wf q \<Longrightarrow> beacon_match q c = tags_superset q (beacons c)"
  unfolding beacon_match_def tags_superset_def item_in_def dict_get_def dict_keys_def dict_wf_def
  by (auto simp: list_all_iff)

lemma beacon_match_empty: "beacon_match [] c"
  by (simp add: beacon_match_def)

lemma get_slice_matches:
  "1 \<le> n \<Longrightarrow>
   fst (get_slice v q n) = most_recent (nat n) (filter (beacon_match q) (claims v))"
  by (simp add: get_slice_def Let_def most_recent_def py_slice_from_neg)

text \<open>
  C1. For a limit of at least 1, \<open>get_slice\<close> returns the claims whose tags contain every
  key of the query with an equal value, cut down to the most recently appended \<open>limit\<close>
  of them: the tail of the matches in insertion order. When no more than \<open>limit\<close> claims
  match, all of them are returned, and the empty query matches every claim.
\<close>

theorem get_slice_recent_matches:
  assumes "1 \<le> limit" and "dict_wf tag_query"
  shows "fst (get_slice vault tag_query limit) =
           most_recent (nat limit)
             (filter (\<lambda>c. tags_superset tag_query (beacons c)) (claims vault))
       \<and> (length (filter (\<lambda>c. tags_superset tag_query (beacons c)) (claims vault)) \<le> nat limit
            \<longrightarrow> fst (get_slice vault tag_query limit) =
                  filter (\<lambda>c. tags_superset tag_query (beacons c)) (claims vault))
       \<and> fst (get_slice vault [] limit) = most_recent (nat limit) (claims vault)"
proof -
  have eq: "filter (beacon_match tag_query) (claims vault) =
            filter (\<lambda>c. tags_superset tag_query (beacons c)) (claims vault)"
    using assms(2) by (simp add: beacon_match_superset cong: filter_cong)
  have all: "filter (beacon_match []) (claims vault) = claims vault"
    by (simp add: beacon_match_empty)
  show ?thesis
    using assms(1) eq all by (simp add: get_slice_matches most_recent_def)
qed

theorem get_slice_recent_matches_witness:
  "(1::int) \<le> 1 \<and> dict_wf [(''topic'', ''billing''), (''urgent'', ''True'')]
   \<and> fst (get_slice vault_V [(''topic'', ''billing''), (''urgent'', ''True'')] 1) = [billing2]
   \<and> fst (get_slice vault_V [] 1) = [shipping1]"
  using get_slice_recent_matches [of 1 "[(''topic'', ''billing''), (''urgent'', ''True'')]" vault_V]
  by (simp add: dict_wf_def most_recent_def tags_superset_def dict_keys_def dict_get_def
      billing1_def billing2_def shipping1_def vault_V_def)

text \<open>
  With limit 0 the slice \<open>matches[-0:]\<close> is \<open>matches[0:]\<close>, the whole list, and with a
  negative limit \<open>- k\<close> it is \<open>matches[k:]\<close>, the matches without their first \<open>k\<close>.
\<close>

lemma get_slice_limit_zero:
  "fst (get_slice vault tag_query 0) = filter (beacon_match tag_query) (claims vault)"
  by (simp add: get_slice_def Let_def py_slice_from_def)

lemma get_slice_limit_negative:
  "limit < 0 \<Longrightarrow>
   fst (get_slice vault tag_query limit) =
     drop (nat (- limit)) (filter (beacon_match tag_query) (claims vault))"
  by (simp add: get_slice_def Let_def py_slice_from_def)

text \<open>
  C6. The claim is that \<open>get_slice\<close> with a limit of 0 or less returns the empty
  sequence. On the vault of the example, the query for billing claims with limit 0
  returns both billing claims, and with limit \<open>-1\<close> it returns the second of them.
\<close>

theorem get_slice_nonpositive_limit_example:
  "fst (get_slice vault_V [(''topic'', ''billing'')] 0) = [billing1, billing2]
   \<and> fst (get_slice vault_V [(''topic'', ''billing'')] (- 1)) = [billing2]"
  by (simp add: get_slice_def Let_def py_slice_from_def beacon_match_def item_in_def
      dict_get_def billing1_def billing2_def shipping1_def vault_V_def)

text \<open>
  C7. Append is monotonic: when a claim \<open>c\<close> satisfies a query, the limit is at least 1
  and the query returned fewer than \<open>limit\<close> claims, then after \<open>add_claim\<close> of \<open>c\<close> the
  same query returns the previous result followed by \<open>c\<close>.
\<close>

theorem add_claim_monotonic:
  assumes "1 \<le> limit" and "dict_wf tag_query" and "tags_superset tag_query (beacons c)"
    and "length (fst (get_slice vault tag_query limit)) < nat limit"
  shows "fst (get_slice (add_claim vault c) tag_query limit) =
           fst (get_slice vault tag_query limit) @ [c]"
proof -
  have m: "beacon_match tag_query c"
    using assms(2,3) by (simp add: beacon_match_superset)
  show ?thesis
    using assms(1,4) m by (simp add: get_slice_def Let_def add_claim_def py_slice_from_neg)
qed

theorem add_claim_monotonic_witness:
  "(1::int) \<le> 3 \<and> dict_wf [(''topic'', ''billing'')]
   \<and> tags_superset [(''topic'', ''billing'')] (beacons billing1)
   \<and> length (fst (get_slice vault_V [(''topic'', ''billing'')] 3)) < nat 3
   \<and> fst (get_slice (add_claim vault_V billing1) [(''topic'', ''billing'')] 3)
       = [billing1, billing2, billing1]"
  using add_claim_monotonic [of 3 "[(''topic'', ''billing'')]" billing1 vault_V]
  by (simp add: dict_wf_def tags_superset_def dict_keys_def dict_get_def
      get_slice_def Let_def py_slice_from_def beacon_match_def item_in_def
      billing1_def billing2_def shipping1_def vault_V_def)

text \<open>
  C8. \<open>get_slice\<close> is read-only and idempotent: a call leaves the vault exactly as it
  was, and a second call with the same query and limit on the vault the first call left
  returns the same sequence and again the same vault.
\<close>

theorem get_slice_read_only_idempotent:
  "snd (get_slice vault tag_query limit) = vault
   \<and> claims (snd (get_slice vault tag_query limit)) = claims vault
   \<and> fst (get_slice (snd (get_slice vault tag_query limit)) tag_query limit) =
       fst (get_slice vault tag_query limit)
   \<and> snd (get_slice (snd (get_slice vault tag_query limit)) tag_query limit) = vault"
  by (simp add: get_slice_def Let_def)

text \<open>
  C9. \<open>add_claim\<close> puts the claim at the end of the sequence, which grows by exactly one;
  the claims stored before are the prefix of the new sequence, unchanged and in their
  order. Nothing is checked: the claim is stored whatever its tags are and also when an
  equal claim is already stored, so that it occurs once more than before.
\<close>

theorem add_claim_appends:
  "claims (add_claim vault c) = claims vault @ [c]
   \<and> length (claims (add_claim vault c)) = length (claims vault) + 1
   \<and> take (length (claims vault)) (claims (add_claim vault c)) = claims vault
   \<and> last (claims (add_claim vault c)) = c
   \<and> count_list (claims (add_claim vault c)) c = count_list (claims vault) c + 1
   \<and> vault_id (add_claim vault c) = vault_id vault"
  by (simp add: add_claim_def)

section \<open>Properties of an agent's prompt\<close>

lemma render_claims_concat:
  "render_claims ctx cs = ctx @ concat (map (\<lambda>c. ''- '' @ content c @ ''\<newline>'') cs)"
  by (induction cs arbitrary: ctx) simp_all

lemma render_slices_concat:
  "render_slices ctx slices =
     ctx @ concat (map slice_rendering (filter (\<lambda>item. snd item \<noteq> []) slices))"
  by (induction slices arbitrary: ctx) (simp_all add: render_claims_concat slice_rendering_def)

lemma slice_rendering_nonempty: "slice_rendering item \<noteq> []"
  by (simp add: slice_rendering_def)

lemma concat_renderings_empty:
  "(concat (map slice_rendering xs) = []) = (xs = [])"
  by (cases xs) (simp_all add: slice_rendering_nonempty)

lemma agent_context_eq:
  "agent_context slices =
     (if list_all (\<lambda>item. snd item = []) slices then no_information
      else concat (map slice_rendering (filter (\<lambda>item. snd item \<noteq> []) slices)))"
  by (simp add: agent_context_def Let_def render_slices_concat concat_renderings_empty
      filter_empty_conv list_all_iff del: concat_eq_Nil_conv)

text \<open>
  C4. \<open>run\<close> hands the generation collaborator one prompt, made of the agent's role,
  the query as it is, and the context. The context is the concatenation of the renderings
  of the slices that are not empty, in the order of the mapping, each a header naming the
  vault followed by one line for each claim's content; empty slices leave no trace in
  it. When every slice is empty, or there is none, the context is the marker that no
  information was found. The context is never empty.
\<close>

theorem run_prompt:
  \<open>run llm_call self q slices w =
     llm_call w
       (''\<newline>Your Role: '' @ role self @ ''\<newline>User's Query: "'' @ q @
        ''"\<newline>Relevant Information:\<newline>'' @ agent_context slices @
        ''\<newline>Based on your role and the provided information, generate a concise, partial response.\<newline>'')
   \<and> agent_context slices =
       (if list_all (\<lambda>item. snd item = []) slices then no_information
        else concat (map slice_rendering (filter (\<lambda>item. snd item \<noteq> []) slices)))
   \<and> agent_context slices \<noteq> []\<close>
proof -
  have "agent_context slices \<noteq> []"
    by (simp add: agent_context_def Let_def no_information_def)
  then show ?thesis
    using agent_context_eq [of slices] by (simp add: run_def agent_prompt_def)
qed

theorem run_prompt_witness:
  "list_all (\<lambda>item. snd item = []) [(''W'', []::string claim list)]
   \<and> agent_context [(''W'', []::string claim list)] = no_information
   \<and> \<not> list_all (\<lambda>item. snd item = []) [(''V'', [billing1, billing2]), (''W'', [])]
   \<and> agent_context [(''V'', [billing1, billing2]), (''W'', [])] =
       ''\<newline>--- Context from V ---\<newline>- invoice sent\<newline>- invoice overdue\<newline>''"
  using run_prompt [of failing_once agent_B "''billing''" "[(''W'', []::string claim list)]" 0]
    run_prompt [of failing_once agent_B "''billing''" "[(''V'', [billing1, billing2]), (''W'', [])]" 0]
  by (simp add: slice_rendering_def billing1_def billing2_def)

section \<open>Properties of the orchestrator\<close>

lemmas fabric_AB_simps = fabric_AB_def register_agent_def register_vault_def fabric_init_def
  agent_A_def agent_B_def vault_V_def vault_W_def new_vault_def
  billing1_def billing2_def shipping1_def
  wake_all_def topic_of_query_def pass_through_def failing_once_def

lemmas fabric_dup_simps = fabric_dup_def register_vault_def fabric_init_def
  agent_A_def agent_A2_def vault_V_def
  billing1_def billing2_def shipping1_def
  wake_two_def topic_of_query_def pass_through_def failing_once_def

text \<open>
  C10. Registration is last-write-wins and local to one id. After \<open>register_agent\<close> the
  agent is the entry of its id, every other id has the entry it had, an id that was
  registered keeps its place and the registry its keys, a registry with one entry for
  each id stays so, and the vault registry and the last trace are as before. The same
  holds for \<open>register_vault\<close> with the two registries exchanged. A new fabric has empty
  registries.
\<close>

theorem register_last_write_wins:
  "dict_get (agents (register_agent self a)) (agent_id a) = Some a
   \<and> (\<forall>k. k \<noteq> agent_id a \<longrightarrow>
         dict_get (agents (register_agent self a)) k = dict_get (agents self) k)
   \<and> (dict_contains (agents self) (agent_id a) \<longrightarrow>
         dict_keys (agents (register_agent self a)) = dict_keys (agents self))
   \<and> (dict_wf (agents self) \<longrightarrow> dict_wf (agents (register_agent self a)))
   \<and> vaults (register_agent self a) = vaults self
   \<and> last_trace (register_agent self a) = last_trace self
   \<and> dict_get (vaults (register_vault self v)) (vault_id v) = Some v
   \<and> (\<forall>k. k \<noteq> vault_id v \<longrightarrow>
         dict_get (vaults (register_vault self v)) k = dict_get (vaults self) k)
   \<and> (dict_contains (vaults self) (vault_id v) \<longrightarrow>
         dict_keys (vaults (register_vault self v)) = dict_keys (vaults self))
   \<and> (dict_wf (vaults self) \<longrightarrow> dict_wf (vaults (register_vault self v)))
   \<and> agents (register_vault self v) = agents self
   \<and> last_trace (register_vault self v) = last_trace self
   \<and> dict_wf (agents (fabric_init g b s :: 'a fabric)) \<and> dict_wf (vaults (fabric_init g b s :: 'a fabric))"
proof -
  have init: "dict_wf (agents (fabric_init g b s :: 'a fabric))"
    "dict_wf (vaults (fabric_init g b s :: 'a fabric))"
    by (simp_all add: fabric_init_def dict_wf_def)
  show ?thesis
    using init
    by (simp add: register_agent_def register_vault_def dict_get_set dict_keys_set_present
        dict_wf_set)
qed

theorem register_last_write_wins_witness:
  "''B'' \<noteq> agent_id agent_A2
   \<and> dict_contains (agents fabric_AB) (agent_id agent_A2)
   \<and> dict_wf (agents fabric_AB)
   \<and> ''W'' \<noteq> vault_id vault_V2
   \<and> dict_contains (vaults fabric_AB) (vault_id vault_V2)
   \<and> dict_wf (vaults fabric_AB)
   \<and> agents (register_agent fabric_AB agent_A2) = [(''A'', agent_A2), (''B'', agent_B)]
   \<and> vaults (register_vault fabric_AB vault_V2) = [(''V'', vault_V2), (''W'', vault_W)]
   \<and> dict_get (agents (register_agent fabric_AB agent_A2)) ''B'' = dict_get (agents fabric_AB) ''B''
   \<and> dict_get (vaults (register_vault fabric_AB vault_V2)) ''W'' = dict_get (vaults fabric_AB) ''W''
   \<and> dict_wf (agents (register_agent fabric_AB agent_A2))
   \<and> dict_wf (vaults (register_vault fabric_AB vault_V2))"
  using register_last_write_wins [of fabric_AB agent_A2 vault_V2 wake_all topic_of_query pass_through]
  by (simp add: fabric_AB_def register_agent_def register_vault_def fabric_init_def
      agent_A_def agent_B_def agent_A2_def vault_V_def vault_V2_def vault_W_def new_vault_def
      dict_contains_def dict_get_def dict_wf_def)

text \<open>
  C3. When the selection strategy returns the empty sequence, \<open>handle_request\<close> returns
  normally with the fixed message and the fresh trace, whose slices and partial results
  are empty; the outside world is as before, so the generation collaborator was not
  called, and the result is the same whatever the two tag strategies and the collaborator
  are, also when they would raise.
\<close>

theorem empty_selection_short_circuits:
  assumes "gatekeeper_strategy self q (agents self) = Inr []"
  shows "handle_request llm_call self q w =
           (Inr (no_agent_message, fresh_trace q), self\<lparr>last_trace := Some (fresh_trace q)\<rparr>, w)
       \<and> trace_partial_results (fresh_trace q :: 'a trace) = []
       \<and> trace_slices_per_agent (fresh_trace q :: 'a trace) = []
       \<and> fst (handle_request llm_call'
               (self\<lparr>beacon_strategy := b', slice_augmentation_strategy := s'\<rparr>) q w) =
           Inr (no_agent_message, fresh_trace q)"
  using assms by (simp add: handle_request_def Let_def fresh_trace_def)

theorem empty_selection_short_circuits_witness:
  "gatekeeper_strategy fabric_AB [] (agents fabric_AB) = Inr []
   \<and> handle_request failing_once fabric_AB [] 0 =
       (Inr (no_agent_message, fresh_trace []), fabric_AB\<lparr>last_trace := Some (fresh_trace [])\<rparr>, 0)
   \<and> fst (handle_request failing_once
            (fabric_AB\<lparr>beacon_strategy := raising_beacon,
                        slice_augmentation_strategy := raising_augmentation\<rparr>) [] 0) =
       Inr (no_agent_message, fresh_trace [])"
proof -
  have g: "gatekeeper_strategy fabric_AB [] (agents fabric_AB) = Inr []"
    by (simp add: fabric_AB_def register_agent_def register_vault_def fabric_init_def wake_all_def)
  show ?thesis
    using g empty_selection_short_circuits [OF g, where llm_call = failing_once and w = 0
        and llm_call' = failing_once and b' = raising_beacon and s' = raising_augmentation]
    by blast
qed

lemma dict_getitem_contains:
  "dict_contains d k \<Longrightarrow> \<exists>v. dict_getitem d k = Inr v"
  by (auto simp: dict_contains_def dict_getitem_def split: option.splits)

lemma slices_loop_keys:
  "\<exists>sl. slices_loop vs b acc ids = Inr sl
        \<and> set (dict_keys sl) = set (dict_keys acc) \<union> (set ids \<inter> set (dict_keys vs))"
proof (induction ids arbitrary: acc)
  case Nil
  show ?case by simp
next
  case (Cons i rest)
  show ?case
  proof (cases "dict_contains vs i")
    case True
    then obtain vault where g: "dict_getitem vs i = Inr vault"
      using dict_getitem_contains by blast
    from Cons [of "dict_set i (fst (get_slice vault b default_max_claims)) acc"]
    show ?thesis
      using True g by (auto simp: dict_keys_set dict_contains_keys)
  next
    case False
    from Cons [of acc] show ?thesis
      using False by (auto simp: dict_contains_keys)
  qed
qed

lemma slices_loop_Inr: "\<exists>sl. slices_loop vs b acc ids = Inr sl"
  using slices_loop_keys [of vs b acc ids] by blast

lemma agent_loop_partials:
  assumes "\<forall>a \<in> set ags. \<exists>ab. slice_augmentation_strategy self a base = Inr ab"
  shows "fst (agent_loop llm_call self q base ags tr out w) =
           Inr (out @ map2 contribution ags (partial_texts llm_call self q base ags w))
       \<and> length (partial_texts llm_call self q base ags w) = length ags"
  using assms
proof (induction ags arbitrary: tr out w)
  case Nil
  show ?case by simp
next
  case (Cons a rest)
  from Cons.prems obtain ab where ab: "slice_augmentation_strategy self a base = Inr ab"
    by auto
  obtain sl where sl: "slices_loop (vaults self) ab [] (vault_ids a) = Inr sl"
    using slices_loop_Inr by blast
  have rest: "\<forall>a \<in> set rest. \<exists>ab. slice_augmentation_strategy self a base = Inr ab"
    using Cons.prems by simp
  show ?case
    using Cons.IH [OF rest] ab sl by (simp add: Let_def)
qed

text \<open>
  C2. When the selection is not empty and the strategies return normally,
  \<open>handle_request\<close> returns normally, and its response is the labelled contributions
  joined by a blank line, one for each selected agent in the order of the selection. Each
  contribution is the label of the agent followed by the text the generation collaborator
  returned for it, whatever that text is, an error marker included.
\<close>

theorem response_joins_contributions:
  assumes "gatekeeper_strategy self q (agents self) = Inr woken"
    and "woken \<noteq> []"
    and "beacon_strategy self q = Inr base"
    and "\<forall>a \<in> set woken. \<exists>ab. slice_augmentation_strategy self a base = Inr ab"
  shows "returned_response (handle_request llm_call self q w) =
           Some (join ''\<newline>\<newline>''
                   (map2 (\<lambda>a partial_result.
                            ''--- Contribution from '' @ agent_id a @ '' ---\<newline>'' @ partial_result)
                      woken (partial_texts llm_call self q base woken w)))
       \<and> length (partial_texts llm_call self q base woken w) = length woken"
proof -
  let ?tr = "(fresh_trace q)\<lparr>trace_woken_agents := woken, trace_base_beacons := base\<rparr>"
  have c: "contribution = (\<lambda>a partial_result.
             ''--- Contribution from '' @ agent_id a @ '' ---\<newline>'' @ partial_result)"
    by (simp add: contribution_def fun_eq_iff)
  have "fst (agent_loop llm_call self q base woken ?tr [] w) =
          Inr ([] @ map2 contribution woken (partial_texts llm_call self q base woken w))
      \<and> length (partial_texts llm_call self q base woken w) = length woken"
    using assms(4) by (rule agent_loop_partials)
  then show ?thesis
    using assms(1-3) unfolding c
    by (auto simp: handle_request_def Let_def returned_response_def split: prod.splits sum.splits)
qed

theorem response_joins_contributions_witness:
  "gatekeeper_strategy fabric_AB ''billing'' (agents fabric_AB) = Inr [agent_A, agent_B]
   \<and> [agent_A, agent_B] \<noteq> []
   \<and> beacon_strategy fabric_AB ''billing'' = Inr [(''topic'', ''billing'')]
   \<and> slice_augmentation_strategy fabric_AB agent_A [(''topic'', ''billing'')] =
       Inr [(''topic'', ''billing'')]
   \<and> slice_augmentation_strategy fabric_AB agent_B [(''topic'', ''billing'')] =
       Inr [(''topic'', ''billing'')]
   \<and> returned_response (handle_request failing_once fabric_AB ''billing'' 0) =
       Some ''--- Contribution from A ---\<newline>[Error: LLM call failed.]\<newline>\<newline>--- Contribution from B ---\<newline>ok''"
proof -
  have g: "gatekeeper_strategy fabric_AB ''billing'' (agents fabric_AB) = Inr [agent_A, agent_B]"
    by (simp add: fabric_AB_simps)
  have n: "[agent_A, agent_B] \<noteq> []" by simp
  have b: "beacon_strategy fabric_AB ''billing'' = Inr [(''topic'', ''billing'')]"
    by (simp add: fabric_AB_simps)
  have sa: "slice_augmentation_strategy fabric_AB agent_A [(''topic'', ''billing'')] =
       Inr [(''topic'', ''billing'')]"
    and sb: "slice_augmentation_strategy fabric_AB agent_B [(''topic'', ''billing'')] =
       Inr [(''topic'', ''billing'')]"
    by (simp_all add: fabric_AB_simps)
  have s: "\<forall>a \<in> set [agent_A, agent_B].
         \<exists>ab. slice_augmentation_strategy fabric_AB a [(''topic'', ''billing'')] = Inr ab"
    using sa sb by simp
  have p: "partial_texts failing_once fabric_AB ''billing'' [(''topic'', ''billing'')]
             [agent_A, agent_B] 0 = [''[Error: LLM call failed.]'', ''ok'']"
    by (simp add: fabric_AB_simps dict_contains_def dict_get_def dict_getitem_def run_def Let_def)
  have r: "returned_response (handle_request failing_once fabric_AB ''billing'' 0) =
           Some (join ''\<newline>\<newline>''
                   (map2 (\<lambda>a partial_result.
                            ''--- Contribution from '' @ agent_id a @ '' ---\<newline>'' @ partial_result)
                      [agent_A, agent_B] [''[Error: LLM call failed.]'', ''ok'']))"
    using response_joins_contributions [OF g n b s, of failing_once 0] unfolding p by blast
  have e: "returned_response (handle_request failing_once fabric_AB ''billing'' 0) =
       Some ''--- Contribution from A ---\<newline>[Error: LLM call failed.]\<newline>\<newline>--- Contribution from B ---\<newline>ok''"
    unfolding r by (simp add: agent_A_def agent_B_def)
  show ?thesis
    using g n b sa sb e by blast
qed

lemma last_with_id_Some:
  "last_with_id i ags = Some b \<Longrightarrow> b \<in> set ags \<and> agent_id b = i"
  by (induction ags) (auto split: option.splits if_splits)

lemma last_with_id_None:
  "last_with_id i ags = None \<Longrightarrow> a \<in> set ags \<Longrightarrow> agent_id a \<noteq> i"
  by (induction ags) (auto split: option.splits if_splits)

lemma agent_loop_entries:
  assumes "\<forall>a \<in> set ags. \<exists>ab. slice_augmentation_strategy self a base = Inr ab"
  shows "case last_with_id i ags of
           None \<Rightarrow>
             dict_get (trace_slices_per_agent
                         (fst (snd (agent_loop llm_call self q base ags tr out w)))) i =
               dict_get (trace_slices_per_agent tr) i
         | Some b \<Rightarrow>
             (\<exists>sl. dict_get (trace_slices_per_agent
                               (fst (snd (agent_loop llm_call self q base ags tr out w)))) i =
                      Some sl
                  \<and> set (dict_keys sl) = set (vault_ids b) \<inter> set (dict_keys (vaults self)))"
  using assms
proof (induction ags arbitrary: tr out w)
  case Nil
  show ?case by simp
next
  case (Cons a rest)
  from Cons.prems obtain ab where ab: "slice_augmentation_strategy self a base = Inr ab"
    by auto
  obtain sl where sl: "slices_loop (vaults self) ab [] (vault_ids a) = Inr sl"
    and keys: "set (dict_keys sl) = set (vault_ids a) \<inter> set (dict_keys (vaults self))"
    using slices_loop_keys [of "vaults self" ab "[]" "vault_ids a"] by (auto simp: dict_keys_def)
  have rest: "\<forall>a \<in> set rest. \<exists>ab. slice_augmentation_strategy self a base = Inr ab"
    using Cons.prems by simp
  define res where "res = run llm_call a q sl w"
  define tr2 where "tr2 = tr\<lparr>trace_slices_per_agent :=
                               dict_set (agent_id a) sl (trace_slices_per_agent tr),
                             trace_partial_results :=
                               dict_set (agent_id a) (fst res) (trace_partial_results tr)\<rparr>"
  have step: "agent_loop llm_call self q base (a # rest) tr out w =
              agent_loop llm_call self q base rest tr2 (out @ [contribution a (fst res)]) (snd res)"
    using ab sl by (simp add: Let_def res_def tr2_def)
  have tr2: "dict_get (trace_slices_per_agent tr2) i =
             (if i = agent_id a then Some sl else dict_get (trace_slices_per_agent tr) i)"
    by (simp add: tr2_def dict_get_set)
  from Cons.IH [OF rest, of tr2 "out @ [contribution a (fst res)]" "snd res"]
  show ?case
    unfolding step using tr2 keys
    by (auto split: option.splits)
qed

text \<open>
  C5, amended. When the selection is not empty and the strategies return normally,
  \<open>handle_request\<close> returns normally with a trace in which, for every selected agent,
  the entry of \<open>slices_per_agent\<close> under the agent's id has a key for a vault id if and
  only if that id is listed in the \<open>vault_ids\<close> of the last selected agent with this agent
  id and is present in the vault registry. So the entry describes every selected agent
  whose \<open>vault_ids\<close> are those of all selected agents with the same id, as when no two
  selected agents share an id. An unregistered vault id gives no key and no exception.
\<close>

theorem slices_keys_registered:
  assumes "gatekeeper_strategy self q (agents self) = Inr woken"
    and "woken \<noteq> []"
    and "beacon_strategy self q = Inr base"
    and "\<forall>a \<in> set woken. \<exists>ab. slice_augmentation_strategy self a base = Inr ab"
  shows "\<exists>tr. returned_trace (handle_request llm_call self q w) = Some tr
           \<and> (\<forall>a \<in> set woken. \<exists>b sl.
                 last_with_id (agent_id a) woken = Some b
               \<and> dict_get (trace_slices_per_agent tr) (agent_id a) = Some sl
               \<and> (\<forall>v. dict_contains sl v \<longleftrightarrow>
                        v \<in> set (vault_ids b) \<and> dict_contains (vaults self) v))
           \<and> (\<forall>a \<in> set woken.
                 (\<forall>b \<in> set woken. agent_id b = agent_id a \<longrightarrow> vault_ids b = vault_ids a) \<longrightarrow>
                 (\<exists>sl. dict_get (trace_slices_per_agent tr) (agent_id a) = Some sl
                     \<and> (\<forall>v. dict_contains sl v \<longleftrightarrow>
                          v \<in> set (vault_ids a) \<and> dict_contains (vaults self) v)))"
proof -
  define tr2 where "tr2 = (fresh_trace q)\<lparr>trace_woken_agents := woken, trace_base_beacons := base\<rparr>"
  define r where "r = agent_loop llm_call self q base woken tr2 [] w"
  define tr where "tr = fst (snd r)"
  have ok: "\<exists>out. fst r = Inr out"
    using agent_loop_partials [OF assms(4), of llm_call q tr2 "[]" w] by (simp add: r_def)
  then have ret: "returned_trace (handle_request llm_call self q w) = Some tr"
    using assms(1-3)
    by (auto simp: handle_request_def Let_def returned_trace_def r_def [symmetric]
        tr2_def [symmetric] tr_def split: prod.splits sum.splits)
  have last: "\<exists>b sl. last_with_id (agent_id a) woken = Some b
               \<and> dict_get (trace_slices_per_agent tr) (agent_id a) = Some sl
               \<and> (\<forall>v. dict_contains sl v \<longleftrightarrow>
                        v \<in> set (vault_ids b) \<and> dict_contains (vaults self) v)"
    if a: "a \<in> set woken" for a
  proof -
    obtain b where b: "last_with_id (agent_id a) woken = Some b"
      using last_with_id_None [of "agent_id a" woken a] a by (cases "last_with_id (agent_id a) woken") auto
    from agent_loop_entries [OF assms(4), where i = "agent_id a" and llm_call = llm_call
        and q = q and tr = tr2 and out = "[]" and w = w]
    show ?thesis
      using b by (auto simp: tr_def r_def dict_contains_keys)
  qed
  have same: "\<exists>sl. dict_get (trace_slices_per_agent tr) (agent_id a) = Some sl
                     \<and> (\<forall>v. dict_contains sl v \<longleftrightarrow>
                          v \<in> set (vault_ids a) \<and> dict_contains (vaults self) v)"
    if a: "a \<in> set woken"
      and s: "\<forall>b \<in> set woken. agent_id b = agent_id a \<longrightarrow> vault_ids b = vault_ids a" for a
  proof -
    from last [OF a] obtain b sl where b: "last_with_id (agent_id a) woken = Some b"
      and sl: "dict_get (trace_slices_per_agent tr) (agent_id a) = Some sl"
        "\<forall>v. dict_contains sl v \<longleftrightarrow> v \<in> set (vault_ids b) \<and> dict_contains (vaults self) v"
      by blast
    have "vault_ids b = vault_ids a"
      using last_with_id_Some [OF b] s by blast
    then show ?thesis using sl by auto
  qed
  show ?thesis
    using ret last same by blast
qed


theorem slices_keys_registered_witness:
  "gatekeeper_strategy fabric_AB ''billing'' (agents fabric_AB) = Inr [agent_A, agent_B]
   \<and> [agent_A, agent_B] \<noteq> []
   \<and> beacon_strategy fabric_AB ''billing'' = Inr [(''topic'', ''billing'')]
   \<and> slice_augmentation_strategy fabric_AB agent_A [(''topic'', ''billing'')] =
       Inr [(''topic'', ''billing'')]
   \<and> slice_augmentation_strategy fabric_AB agent_B [(''topic'', ''billing'')] =
       Inr [(''topic'', ''billing'')]
   \<and> agent_A \<in> set [agent_A, agent_B]
   \<and> agent_id agent_B \<noteq> agent_id agent_A
   \<and> (\<exists>tr sl. returned_trace (handle_request failing_once fabric_AB ''billing'' 0) = Some tr
         \<and> dict_get (trace_slices_per_agent tr) ''A'' = Some sl
         \<and> dict_contains sl ''V'' \<and> \<not> dict_contains sl ''V2'')"
proof -
  have g: "gatekeeper_strategy fabric_AB ''billing'' (agents fabric_AB) = Inr [agent_A, agent_B]"
    by (simp add: fabric_AB_simps)
  have n: "[agent_A, agent_B] \<noteq> []" by simp
  have b: "beacon_strategy fabric_AB ''billing'' = Inr [(''topic'', ''billing'')]"
    by (simp add: fabric_AB_simps)
  have sa: "slice_augmentation_strategy fabric_AB agent_A [(''topic'', ''billing'')] =
       Inr [(''topic'', ''billing'')]"
    and sb: "slice_augmentation_strategy fabric_AB agent_B [(''topic'', ''billing'')] =
       Inr [(''topic'', ''billing'')]"
    by (simp_all add: fabric_AB_simps)
  have s: "\<forall>a \<in> set [agent_A, agent_B].
         \<exists>ab. slice_augmentation_strategy fabric_AB a [(''topic'', ''billing'')] = Inr ab"
    using sa sb by simp
  have m: "agent_A \<in> set [agent_A, agent_B]" by simp
  have ne: "agent_id agent_B \<noteq> agent_id agent_A"
    by (simp add: agent_A_def agent_B_def)
  have d: "\<forall>b \<in> set [agent_A, agent_B].
         agent_id b = agent_id agent_A \<longrightarrow> vault_ids b = vault_ids agent_A"
    using ne by simp
  from slices_keys_registered [OF g n b s, of failing_once 0] m d
  obtain tr sl where ret: "returned_trace (handle_request failing_once fabric_AB ''billing'' 0) = Some tr"
    and sl: "dict_get (trace_slices_per_agent tr) (agent_id agent_A) = Some sl"
    and keys: "\<forall>v. dict_contains sl v \<longleftrightarrow>
                 v \<in> set (vault_ids agent_A) \<and> dict_contains (vaults fabric_AB) v"
    by blast
  have v: "dict_contains (vaults fabric_AB) ''V''" "\<not> dict_contains (vaults fabric_AB) ''V2''"
    by (simp_all add: fabric_AB_simps dict_contains_def dict_get_def)
  have "dict_contains sl ''V''" "\<not> dict_contains sl ''V2''"
    using keys v by (simp_all add: agent_A_def)
  moreover have "dict_get (trace_slices_per_agent tr) ''A'' = Some sl"
    using sl by (simp add: agent_A_def)
  ultimately show ?thesis
    using g n b sa sb m ne ret by blast
qed

text \<open>
  C5 as stated fails when two selected agents share an id. Here the selection strategy
  returns two agents with id \<open>A\<close>: the first lists the registered vault \<open>V\<close>, the second
  lists no vault. The entry for \<open>A\<close> is the one the second agent wrote, with no key, so
  for the first agent \<open>V\<close> is listed and registered and yet is no key of its entry.
\<close>

theorem slices_entry_shared_id_counterexample:
  "gatekeeper_strategy fabric_dup ''billing'' (agents fabric_dup) = Inr [agent_A, agent_A2]
   \<and> map_option trace_slices_per_agent
         (returned_trace (handle_request failing_once fabric_dup ''billing'' 0)) =
       Some [(''A'', [])]
   \<and> ''V'' \<in> set (vault_ids agent_A)
   \<and> dict_contains (vaults fabric_dup) ''V''
   \<and> \<not> dict_contains ([] :: (string, string claim list) dict) ''V''"
  by (simp add: fabric_dup_simps handle_request_def fresh_trace_def returned_trace_def Let_def
      dict_contains_def dict_get_def dict_getitem_def run_def)

end
